theory Spec2Isabelle
  imports Complex_Main "HOL-Library.Sublist"
begin

section \<open>Money Tracker: the ledger of backend/main.py and the rate limiter of backend/redis_client.py\<close>

text \<open>
  The three tables of backend/database.py are lists of rows; a row carries its primary key.
  The columns declared \<open>Float\<close> are modelled as exact reals: rounding of binary floating
  point is outside this development. Python strings are byte strings in UTF-8 here, so the
  one-code-point arrows of the transfer descriptions are three bytes each; a substring test
  on well-formed UTF-8 agrees with the test on code points.
\<close>

subsection \<open>Rows (backend/database.py)\<close>

type_synonym datetime = nat

record account =
  acc_id :: nat
  name :: string
  balance :: real
  account_type :: string
  credit_limit :: real

record category =
  cat_id :: nat
  cat_name :: string
  cat_type :: "string option"
  parent_id :: "nat option"

record transaction =
  txn_id :: nat
  amount :: real
  description :: "string option"
  created_at :: datetime
  account_id :: nat
  category_id :: "nat option"
  is_transfer :: bool
  transfer_pair_id :: "nat option"

record store =
  accounts :: "account list"
  categories :: "category list"
  transactions :: "transaction list"

definition empty_store :: store where
  "empty_store = \<lparr>accounts = [], categories = [], transactions = []\<rparr>"

subsection \<open>The session (sqlalchemy Session, autoflush off)\<close>

text \<open>
  A session works on a copy of the committed store. Within one session the identity map
  hands out one object per primary key, so every read below goes to the working copy and
  every attribute assignment is an update of the rows with that key. \<open>commit\<close> publishes
  the working copy, \<open>rollback\<close> discards it, and \<open>get_db\<close> closes the session on every
  exit path, which drops whatever was not committed.
\<close>

record session =
  committed :: store
  working :: store

definition SessionLocal :: "store \<Rightarrow> session" where
  "SessionLocal st = \<lparr>committed = st, working = st\<rparr>"

definition commit :: "session \<Rightarrow> session" where
  "commit db = db\<lparr>committed := working db\<rparr>"

definition rollback :: "session \<Rightarrow> session" where
  "rollback db = db\<lparr>working := committed db\<rparr>"

datatype error = HTTPException nat string | AttributeError | IntegrityError

definition get_db :: "(session \<Rightarrow> (error + 'a) \<times> session) \<Rightarrow> store \<Rightarrow> (error + 'a) \<times> store" where
  "get_db endpoint st = (case endpoint (SessionLocal st) of (r, db) \<Rightarrow> (r, committed db))"

text \<open>The key the store gives a new row: one above every key present.\<close>

fun max_id :: "nat list \<Rightarrow> nat" where
  "max_id [] = 0"
| "max_id (i # is) = max i (max_id is)"

definition next_id :: "nat list \<Rightarrow> nat" where
  "next_id ids = Suc (max_id ids)"

text \<open>\<open>db.query(Model).filter(Model.id == key).first()\<close>\<close>

definition query_account :: "session \<Rightarrow> nat \<Rightarrow> account option" where
  "query_account db i = find (\<lambda>a. acc_id a = i) (accounts (working db))"

definition query_category :: "session \<Rightarrow> nat option \<Rightarrow> category option" where
  "query_category db k =
     (case k of None \<Rightarrow> None
      | Some i \<Rightarrow> find (\<lambda>c. cat_id c = i) (categories (working db)))"

definition query_transaction :: "session \<Rightarrow> nat option \<Rightarrow> transaction option" where
  "query_transaction db k =
     (case k of None \<Rightarrow> None
      | Some i \<Rightarrow> find (\<lambda>t. txn_id t = i) (transactions (working db)))"

text \<open>Attribute assignment on a loaded object, and \<open>db.add\<close>, \<open>db.delete\<close>.\<close>

definition update_accounts :: "nat \<Rightarrow> (account \<Rightarrow> account) \<Rightarrow> session \<Rightarrow> session" where
  "update_accounts i f db =
     db\<lparr>working := (working db)\<lparr>accounts :=
        map (\<lambda>a. if acc_id a = i then f a else a) (accounts (working db))\<rparr>\<rparr>"

definition update_transactions :: "nat \<Rightarrow> (transaction \<Rightarrow> transaction) \<Rightarrow> session \<Rightarrow> session" where
  "update_transactions i f db =
     db\<lparr>working := (working db)\<lparr>transactions :=
        map (\<lambda>t. if txn_id t = i then f t else t) (transactions (working db))\<rparr>\<rparr>"

definition add_transaction :: "transaction \<Rightarrow> session \<Rightarrow> session" where
  "add_transaction t db =
     db\<lparr>working := (working db)\<lparr>transactions := transactions (working db) @ [t]\<rparr>\<rparr>"

definition delete_row :: "nat \<Rightarrow> session \<Rightarrow> session" where
  "delete_row i db =
     db\<lparr>working := (working db)\<lparr>transactions :=
        filter (\<lambda>t. txn_id t \<noteq> i) (transactions (working db))\<rparr>\<rparr>"

subsection \<open>Category resolution (main.py, get_category_type)\<close>

text \<open>Truthiness of an \<open>Optional[str]\<close>: \<open>None\<close> and the empty string are false.\<close>

definition truthy :: "string option \<Rightarrow> bool" where
  "truthy s = (case s of None \<Rightarrow> False | Some v \<Rightarrow> v \<noteq> [])"

text \<open>The relationship \<open>category.parent\<close>: the row whose key is \<open>parent_id\<close>.\<close>

definition parent :: "session \<Rightarrow> category \<Rightarrow> category option" where
  "parent db c = query_category db (parent_id c)"

definition get_category_type :: "session \<Rightarrow> category \<Rightarrow> string" where
  "get_category_type db c =
     (if truthy (cat_type c) then (case cat_type c of Some v \<Rightarrow> v | None \<Rightarrow> [])
      else (case parent db c of
              Some p \<Rightarrow> (if truthy (cat_type p)
                          then (case cat_type p of Some v \<Rightarrow> v | None \<Rightarrow> [])
                          else ''expense'')
            | None \<Rightarrow> ''expense''))"

subsection \<open>Request and response bodies (backend/schemas.py)\<close>

record account_create =
  ac_name :: string
  ac_balance :: real
  ac_account_type :: string
  ac_credit_limit :: real

text \<open>
  Of \<open>TransactionCreate\<close> the endpoint reads the five fields below; the schema's
  \<open>is_transfer\<close> and \<open>transfer_pair_id\<close> are accepted and ignored.
\<close>

record transaction_create =
  tc_amount :: real
  tc_description :: "string option"
  tc_account_id :: nat
  tc_category_id :: "nat option"
  tc_created_at :: "datetime option"

record transaction_update =
  tu_amount :: "real option"
  tu_description :: "string option"
  tu_account_id :: "nat option"
  tu_category_id :: "nat option"
  tu_created_at :: "datetime option"

record transfer_create =
  from_account_id :: nat
  to_account_id :: nat
  tr_amount :: real

record transfer_response =
  status :: string
  from_balance :: real
  to_balance :: real

record delete_response =
  del_status :: string
  del_id :: nat

subsection \<open>Accounts (main.py, create_account and update_account)\<close>

definition valid_account_type :: "string \<Rightarrow> bool" where
  "valid_account_type t = (t = ''cash'' \<or> t = ''debit'' \<or> t = ''credit'')"

text \<open>The column \<open>name\<close> is unique: a commit that would store a second row with a name in use fails.\<close>

definition name_taken :: "session \<Rightarrow> nat \<Rightarrow> string \<Rightarrow> bool" where
  "name_taken db i n = list_ex (\<lambda>a. acc_id a \<noteq> i \<and> name a = n) (accounts (working db))"

definition add_account :: "account \<Rightarrow> session \<Rightarrow> session" where
  "add_account a db =
     db\<lparr>working := (working db)\<lparr>accounts := accounts (working db) @ [a]\<rparr>\<rparr>"

definition create_account :: "account_create \<Rightarrow> session \<Rightarrow> (error + account) \<times> session" where
  "create_account account db =
     (if \<not> valid_account_type (ac_account_type account)
      then (Inl (HTTPException 400 ''Account type must be: cash, debit, or credit''), db)
      else if ac_account_type account = ''credit'' \<and> ac_credit_limit account \<le> 0
      then (Inl (HTTPException 400 ''Credit limit must be greater than 0''), db)
      else
        let db_account = \<lparr>acc_id = next_id (map acc_id (accounts (working db))),
                            name = ac_name account,
                            balance = ac_balance account,
                            account_type = ac_account_type account,
                            credit_limit = ac_credit_limit account\<rparr>
        in if name_taken db (acc_id db_account) (ac_name account)
           then (Inl IntegrityError, db)
           else (Inr db_account, commit (add_account db_account db)))"

definition update_account :: "nat \<Rightarrow> account_create \<Rightarrow> session \<Rightarrow> (error + account) \<times> session" where
  "update_account account_id' account_update db =
     (case query_account db account_id' of
        None \<Rightarrow> (Inl (HTTPException 404 ''Account not found''), db)
      | Some db_account \<Rightarrow>
          if \<not> valid_account_type (ac_account_type account_update)
          then (Inl (HTTPException 400 ''Account type must be: cash, debit, or credit''), db)
          else if name_taken db account_id' (ac_name account_update)
          then (Inl IntegrityError, db)
          else
            let assign = (\<lambda>a. a\<lparr>name := ac_name account_update,
                                  balance := ac_balance account_update,
                                  account_type := ac_account_type account_update,
                                  credit_limit := ac_credit_limit account_update\<rparr>)
            in (Inr (assign db_account), commit (update_accounts account_id' assign db)))"

subsection \<open>Transactions (main.py, create_transaction, update_transaction, delete_transaction)\<close>

text \<open>
  The guard that create_transaction, update_transaction and make_transfer each spell out
  on the balance they are about to store: a credit account may not leave its limit in
  absolute value, every other account may not go below zero. Only the message of the
  second case differs between the callers.
\<close>

definition limit_check :: "account \<Rightarrow> real \<Rightarrow> string \<Rightarrow> error option" where
  "limit_check a new_balance msg =
     (if account_type a = ''credit''
      then (if \<bar>new_balance\<bar> > credit_limit a
            then Some (HTTPException 400 ''Credit limit exceeded'') else None)
      else if new_balance < 0 then Some (HTTPException 400 msg)
      else None)"

definition create_transaction ::
  "transaction_create \<Rightarrow> datetime \<Rightarrow> session \<Rightarrow> (error + transaction) \<times> session" where
  "create_transaction t now db =
     (case (query_account db (tc_account_id t), query_category db (tc_category_id t)) of
        (Some account, Some category) \<Rightarrow>
          let cat_type = get_category_type db category;
              db_transaction =
                \<lparr>txn_id = next_id (map txn_id (transactions (working db))),
                 amount = tc_amount t,
                 description = tc_description t,
                 created_at = (case tc_created_at t of Some d \<Rightarrow> d | None \<Rightarrow> now),
                 account_id = tc_account_id t,
                 category_id = tc_category_id t,
                 is_transfer = False,
                 transfer_pair_id = None\<rparr>
          in if cat_type = ''expense'' then
               (let new_balance = balance account - tc_amount t
                in case limit_check account new_balance ''Insufficient funds'' of
                     Some e \<Rightarrow> (Inl e, db)
                   | None \<Rightarrow>
                       (Inr db_transaction,
                        commit (add_transaction db_transaction
                          (update_accounts (acc_id account) (\<lambda>a. a\<lparr>balance := new_balance\<rparr>) db))))
             else if cat_type = ''income'' then
               (Inr db_transaction,
                commit (add_transaction db_transaction
                  (update_accounts (acc_id account)
                     (\<lambda>a. a\<lparr>balance := balance a + tc_amount t\<rparr>) db)))
             else (Inr db_transaction, commit (add_transaction db_transaction db))
      | _ \<Rightarrow> (Inl (HTTPException 404 ''Account or Category not found''), db))"

text \<open>The fields of the patch that are not \<open>None\<close> override the row's.\<close>

definition merge :: "transaction_update \<Rightarrow> transaction \<Rightarrow> transaction" where
  "merge update txn =
     txn\<lparr>amount := (case tu_amount update of Some v \<Rightarrow> v | None \<Rightarrow> amount txn),
         description := (case tu_description update of Some v \<Rightarrow> Some v | None \<Rightarrow> description txn),
         created_at := (case tu_created_at update of Some v \<Rightarrow> v | None \<Rightarrow> created_at txn),
         account_id := (case tu_account_id update of Some v \<Rightarrow> v | None \<Rightarrow> account_id txn),
         category_id := (case tu_category_id update of Some v \<Rightarrow> Some v | None \<Rightarrow> category_id txn)\<rparr>"

text \<open>
  Lines 399 to 402 and 472 to 475: undoing the effect of a row on its account. The account
  is dereferenced only when the type is expense or income; a missing account raises then.
\<close>

definition reverse_effect :: "string \<Rightarrow> account option \<Rightarrow> real \<Rightarrow> session \<Rightarrow> error + session" where
  "reverse_effect old_type old_account amt db =
     (if old_type = ''expense'' then
        (case old_account of
           None \<Rightarrow> Inl AttributeError
         | Some a \<Rightarrow> Inr (update_accounts (acc_id a) (\<lambda>a. a\<lparr>balance := balance a + amt\<rparr>) db))
      else if old_type = ''income'' then
        (case old_account of
           None \<Rightarrow> Inl AttributeError
         | Some a \<Rightarrow> Inr (update_accounts (acc_id a) (\<lambda>a. a\<lparr>balance := balance a - amt\<rparr>) db))
      else Inr db)"

definition update_transaction ::
  "nat \<Rightarrow> transaction_update \<Rightarrow> session \<Rightarrow> (error + transaction) \<times> session" where
  "update_transaction transaction_id update db =
     (case query_transaction db (Some transaction_id) of
        None \<Rightarrow> (Inl (HTTPException 404 ''Transaction not found''), db)
      | Some txn0 \<Rightarrow>
          let old_account = query_account db (account_id txn0);
              old_category = query_category db (category_id txn0);
              old_type = (case old_category of
                            Some c \<Rightarrow> get_category_type db c | None \<Rightarrow> ''expense'')
          in (case reverse_effect old_type old_account (amount txn0) db of
                Inl e \<Rightarrow> (Inl e, db)
              | Inr db1 \<Rightarrow>
                  (let txn = merge update txn0;
                       db2 = update_transactions transaction_id (merge update) db1
                   in (case (query_account db2 (account_id txn), query_category db2 (category_id txn)) of
                         (Some new_account, Some new_category) \<Rightarrow>
                           (let new_type = get_category_type db2 new_category
                            in if new_type = ''expense'' then
                                 (let new_balance = balance new_account - amount txn
                                  in (case limit_check new_account new_balance ''Insufficient funds'' of
                                        Some e \<Rightarrow> (Inl e, rollback db2)
                                      | None \<Rightarrow>
                                          (Inr txn,
                                           commit (update_accounts (acc_id new_account)
                                                     (\<lambda>a. a\<lparr>balance := new_balance\<rparr>) db2))))
                               else if new_type = ''income'' then
                                 (Inr txn,
                                  commit (update_accounts (acc_id new_account)
                                            (\<lambda>a. a\<lparr>balance := balance a + amount txn\<rparr>) db2))
                               else (Inr txn, commit db2))
                       | _ \<Rightarrow> (Inl (HTTPException 404 ''Account or Category not found''),
                               rollback db2)))))"

text \<open>The outgoing and the incoming marker, U+2192 and U+2190, in UTF-8.\<close>

definition arrow_out :: string where
  "arrow_out = [CHR 0xE2, CHR 0x86, CHR 0x92]"

definition arrow_in :: string where
  "arrow_in = [CHR 0xE2, CHR 0x86, CHR 0x90]"

definition delete_transaction :: "nat \<Rightarrow> session \<Rightarrow> (error + delete_response) \<times> session" where
  "delete_transaction transaction_id db =
     (case query_transaction db (Some transaction_id) of
        None \<Rightarrow> (Inl (HTTPException 404 ''Transaction not found''), db)
      | Some txn \<Rightarrow>
          if is_transfer txn then
            (let pair = query_transaction db (transfer_pair_id txn);
                 own = query_account db (account_id txn);
                 other = (case pair of Some p \<Rightarrow> query_account db (account_id p) | None \<Rightarrow> None);
                 outgoing = sublist arrow_out (case description txn of Some d \<Rightarrow> d | None \<Rightarrow> []);
                 from_acc = (if outgoing then own else other);
                 to_acc = (if outgoing then other else own);
                 db1 = (case from_acc of
                          Some a \<Rightarrow> update_accounts (acc_id a) (\<lambda>a. a\<lparr>balance := balance a + amount txn\<rparr>) db
                        | None \<Rightarrow> db);
                 db2 = (case to_acc of
                          Some a \<Rightarrow> update_accounts (acc_id a) (\<lambda>a. a\<lparr>balance := balance a - amount txn\<rparr>) db1
                        | None \<Rightarrow> db1);
                 db3 = delete_row (txn_id txn) db2;
                 db4 = (case pair of Some p \<Rightarrow> delete_row (txn_id p) db3 | None \<Rightarrow> db3)
             in (Inr \<lparr>del_status = ''deleted'', del_id = transaction_id\<rparr>, commit db4))
          else
            (let account = query_account db (account_id txn);
                 category = query_category db (category_id txn);
                 cat_type = (case category of
                               Some c \<Rightarrow> get_category_type db c | None \<Rightarrow> ''expense'')
             in case reverse_effect cat_type account (amount txn) db of
                  Inl e \<Rightarrow> (Inl e, db)
                | Inr db1 \<Rightarrow>
                    (Inr \<lparr>del_status = ''deleted'', del_id = transaction_id\<rparr>,
                     commit (delete_row (txn_id txn) db1))))"

subsection \<open>Transfers (main.py, make_transfer)\<close>

text \<open>
  The two inserts are flushed one after the other, so the second row's key is one above the
  first's. The response reads both balances from the session after the commit; both rows
  were found at the start, so the last alternative below is never taken.
\<close>

definition make_transfer ::
  "transfer_create \<Rightarrow> datetime \<Rightarrow> session \<Rightarrow> (error + transfer_response) \<times> session" where
  "make_transfer transfer now db =
     (case (query_account db (from_account_id transfer), query_account db (to_account_id transfer)) of
        (Some from_acc, Some to_acc) \<Rightarrow>
          let new_balance = balance from_acc - tr_amount transfer
          in (case limit_check from_acc new_balance ''Insufficient funds in sender account'' of
                Some e \<Rightarrow> (Inl e, db)
              | None \<Rightarrow>
                  let db1 = update_accounts (acc_id from_acc) (\<lambda>a. a\<lparr>balance := new_balance\<rparr>) db;
                      db2 = update_accounts (acc_id to_acc)
                              (\<lambda>a. a\<lparr>balance := balance a + tr_amount transfer\<rparr>) db1;
                      txn_out = \<lparr>txn_id = next_id (map txn_id (transactions (working db2))),
                                 amount = tr_amount transfer,
                                 description = Some (''Transfer '' @ arrow_out @ '' '' @ name to_acc),
                                 created_at = now,
                                 account_id = acc_id from_acc,
                                 category_id = None,
                                 is_transfer = True,
                                 transfer_pair_id = None\<rparr>;
                      db3 = add_transaction txn_out db2;
                      txn_in = \<lparr>txn_id = next_id (map txn_id (transactions (working db3))),
                                amount = tr_amount transfer,
                                description = Some (''Transfer '' @ arrow_in @ '' '' @ name from_acc),
                                created_at = now,
                                account_id = acc_id to_acc,
                                category_id = None,
                                is_transfer = True,
                                transfer_pair_id = Some (txn_id txn_out)\<rparr>;
                      db4 = add_transaction txn_in db3;
                      db5 = commit (update_transactions (txn_id txn_out)
                                      (\<lambda>t. t\<lparr>transfer_pair_id := Some (txn_id txn_in)\<rparr>) db4)
                  in (case (query_account db5 (acc_id from_acc), query_account db5 (acc_id to_acc)) of
                        (Some f, Some t) \<Rightarrow>
                          (Inr \<lparr>status = ''success'', from_balance = balance f, to_balance = balance t\<rparr>, db5)
                      | _ \<Rightarrow> (Inl AttributeError, db5)))
      | _ \<Rightarrow> (Inl (HTTPException 404 ''One of the accounts not found''), db))"

subsection \<open>The rate limiter (backend/redis_client.py, check_rate_limit)\<close>

text \<open>
  The key-value store holds, per key, a counter and its time to live as the store reports
  it (\<open>-1\<close>: the key has no expiry). Whether a round trip to the store raises
  \<open>redis.RedisError\<close> is the environment's choice: the list \<open>faults\<close> says so for each
  round trip to come, and a store with no entry left answers.
\<close>

datatype redis_error = RedisError

record redis =
  entries :: "string \<Rightarrow> (int \<times> int) option"
  faults :: "bool list"

definition round_trip :: "redis \<Rightarrow> bool \<times> redis" where
  "round_trip r = (case faults r of [] \<Rightarrow> (False, r) | f # fs \<Rightarrow> (f, r\<lparr>faults := fs\<rparr>))"

text \<open>The pipeline \<open>INCR key; TTL key\<close>, executed in one round trip.\<close>

definition pipeline_incr_ttl :: "string \<Rightarrow> redis \<Rightarrow> (redis_error + int \<times> int) \<times> redis" where
  "pipeline_incr_ttl key r =
     (case round_trip r of
        (True, r') \<Rightarrow> (Inl RedisError, r')
      | (False, r') \<Rightarrow>
          let count = (case entries r' key of Some (v, t) \<Rightarrow> v + 1 | None \<Rightarrow> 1);
              ttl = (case entries r' key of Some (v, t) \<Rightarrow> t | None \<Rightarrow> - 1)
          in (Inr (count, ttl), r'\<lparr>entries := (entries r')(key \<mapsto> (count, ttl))\<rparr>))"

definition expire :: "string \<Rightarrow> int \<Rightarrow> redis \<Rightarrow> (redis_error + unit) \<times> redis" where
  "expire key seconds r =
     (case round_trip r of
        (True, r') \<Rightarrow> (Inl RedisError, r')
      | (False, r') \<Rightarrow>
          (Inr (),
           (case entries r' key of
              Some (v, t) \<Rightarrow> r'\<lparr>entries := (entries r')(key \<mapsto> (v, seconds))\<rparr>
            | None \<Rightarrow> r')))"

record rate_limit =
  allowed :: bool
  current :: int
  limit :: int
  remaining :: int

definition check_rate_limit :: "string \<Rightarrow> int \<Rightarrow> int \<Rightarrow> redis \<Rightarrow> rate_limit \<times> redis" where
  "check_rate_limit client_ip max_requests window_seconds r =
     (let key = ''ratelimit:'' @ client_ip;
          fail_open = \<lparr>allowed = True, current = 0, limit = max_requests,
                       remaining = max_requests\<rparr>
      in case pipeline_incr_ttl key r of
           (Inl e, r1) \<Rightarrow> (fail_open, r1)
         | (Inr (current_count, current_ttl), r1) \<Rightarrow>
             (case (if current_ttl = - 1 then expire key window_seconds r1 else (Inr (), r1)) of
                (Inl e, r2) \<Rightarrow> (fail_open, r2)
              | (Inr u, r2) \<Rightarrow>
                  (\<lparr>allowed = current_count \<le> max_requests,
                    current = current_count,
                    limit = max_requests,
                    remaining = max 0 (max_requests - current_count)\<rparr>, r2)))"

text \<open>The counter of a key before a request: an absent key counts as zero.\<close>

definition stored_count :: "redis \<Rightarrow> string \<Rightarrow> int" where
  "stored_count r key = (case entries r key of Some (v, t) \<Rightarrow> v | None \<Rightarrow> 0)"

subsection \<open>Vocabulary of the properties\<close>

text \<open>The balance of the account with key \<open>i\<close> in a committed store.\<close>

definition balance_of :: "store \<Rightarrow> nat \<Rightarrow> real option" where
  "balance_of st i = map_option balance (query_account (SessionLocal st) i)"



text \<open>
  The guard of \<open>limit_check\<close> read as a property of a stored account: a credit account is
  within its limit in absolute value, any other account is not below zero.
\<close>

definition within_limit :: "account \<Rightarrow> bool" where
  "within_limit a =
     (if account_type a = ''credit'' then \<bar>balance a\<bar> \<le> credit_limit a else 0 \<le> balance a)"

text \<open>The two rows a transfer of \<open>amt\<close> from \<open>from_acc\<close> to \<open>to_acc\<close> adds to a store.\<close>

definition transfer_legs :: "store \<Rightarrow> account \<Rightarrow> account \<Rightarrow> real \<Rightarrow> datetime \<Rightarrow> transaction list" where
  "transfer_legs st from_acc to_acc amt now =
     (let n = next_id (map txn_id (transactions st))
      in [\<lparr>txn_id = n, amount = amt,
           description = Some (''Transfer '' @ arrow_out @ '' '' @ name to_acc),
           created_at = now, account_id = acc_id from_acc, category_id = None,
           is_transfer = True, transfer_pair_id = Some (Suc n)\<rparr>,
          \<lparr>txn_id = Suc n, amount = amt,
           description = Some (''Transfer '' @ arrow_in @ '' '' @ name from_acc),
           created_at = now, account_id = acc_id to_acc, category_id = None,
           is_transfer = True, transfer_pair_id = Some n\<rparr>])"

subsection \<open>Example ledgers\<close>

definition cash :: account where
  "cash = \<lparr>acc_id = 1, name = ''Cash'', balance = 1000, account_type = ''cash'', credit_limit = 0\<rparr>"

definition debit_card :: account where
  "debit_card = \<lparr>acc_id = 2, name = ''Card'', balance = 500, account_type = ''debit'', credit_limit = 0\<rparr>"

definition visa :: account where
  "visa = \<lparr>acc_id = 3, name = ''Visa'', balance = 0, account_type = ''credit'', credit_limit = 5000\<rparr>"

definition food :: category where
  "food = \<lparr>cat_id = 1, cat_name = ''Food'', cat_type = Some ''expense'', parent_id = None\<rparr>"

definition salary :: category where
  "salary = \<lparr>cat_id = 2, cat_name = ''Salary'', cat_type = Some ''income'', parent_id = None\<rparr>"

definition bonus :: category where
  "bonus = \<lparr>cat_id = 3, cat_name = ''Bonus'', cat_type = None, parent_id = Some 2\<rparr>"

definition ledger :: store where
  "ledger = \<lparr>accounts = [cash, debit_card, visa], categories = [food, salary, bonus], transactions = []\<rparr>"

text \<open>The ledger after a lunch of 200 paid in cash.\<close>

definition lunch :: transaction where
  "lunch = \<lparr>txn_id = 1, amount = 200, description = Some ''Lunch'', created_at = 7,
            account_id = 1, category_id = Some 1, is_transfer = False, transfer_pair_id = None\<rparr>"

definition ledger_lunch :: store where
  "ledger_lunch = ledger\<lparr>accounts := [cash\<lparr>balance := 800\<rparr>, debit_card, visa], transactions := [lunch]\<rparr>"

text \<open>The ledger after 300 moved from Cash to Card.\<close>

definition leg_out :: transaction where
  "leg_out = \<lparr>txn_id = 1, amount = 300, description = Some (''Transfer '' @ arrow_out @ '' Card''),
              created_at = 7, account_id = 1, category_id = None, is_transfer = True,
              transfer_pair_id = Some 2\<rparr>"

definition leg_in :: transaction where
  "leg_in = \<lparr>txn_id = 2, amount = 300, description = Some (''Transfer '' @ arrow_in @ '' Cash''),
             created_at = 7, account_id = 2, category_id = None, is_transfer = True,
             transfer_pair_id = Some 1\<rparr>"

definition ledger_moved :: store where
  "ledger_moved = ledger\<lparr>accounts := [cash\<lparr>balance := 700\<rparr>, debit_card\<lparr>balance := 800\<rparr>, visa],
                         transactions := [leg_out, leg_in]\<rparr>"

text \<open>The ledger after a dinner of 3000 paid with the credit card.\<close>

definition dinner :: transaction where
  "dinner = \<lparr>txn_id = 1, amount = 3000, description = Some ''Dinner'', created_at = 7,
             account_id = 3, category_id = Some 1, is_transfer = False, transfer_pair_id = None\<rparr>"

definition ledger_dinner :: store where
  "ledger_dinner = ledger\<lparr>accounts := [cash, debit_card, visa\<lparr>balance := - 3000\<rparr>], transactions := [dinner]\<rparr>"

text \<open>
  A ledger whose first account carries the outgoing marker in its name, and that ledger
  after 300 moved from the first account to the second.
\<close>

definition joint :: account where
  "joint = cash\<lparr>name := ''Cash '' @ arrow_out @ '' Card''\<rparr>"

definition ledger_named :: store where
  "ledger_named = \<lparr>accounts = [joint, debit_card], categories = [], transactions = []\<rparr>"

definition ledger_named_moved :: store where
  "ledger_named_moved =
     ledger_named
       \<lparr>accounts := [joint\<lparr>balance := 700\<rparr>, debit_card\<lparr>balance := 800\<rparr>],
        transactions :=
          [leg_out,
           leg_in\<lparr>description := Some (''Transfer '' @ arrow_in @ '' Cash '' @ arrow_out @ '' Card'')\<rparr>]\<rparr>"

section \<open>Properties\<close>

subsection \<open>The session and the tables\<close>

lemma session_simps [simp]:
  "committed (SessionLocal st) = st"
  "working (SessionLocal st) = st"
  "committed (commit db) = working db"
  "working (commit db) = working db"
  "committed (rollback db) = committed db"
  "working (rollback db) = committed db"
  "committed (update_accounts i f db) = committed db"
  "committed (update_transactions j g db) = committed db"
  "committed (add_transaction t db) = committed db"
  "committed (delete_row j db) = committed db"
  by (simp_all add: SessionLocal_def commit_def rollback_def update_accounts_def
       update_transactions_def add_transaction_def delete_row_def)

lemma working_simps [simp]:
  "accounts (working (update_accounts i f db))
     = map (\<lambda>a. if acc_id a = i then f a else a) (accounts (working db))"
  "categories (working (update_accounts i f db)) = categories (working db)"
  "transactions (working (update_accounts i f db)) = transactions (working db)"
  "accounts (working (update_transactions j g db)) = accounts (working db)"
  "categories (working (update_transactions j g db)) = categories (working db)"
  "transactions (working (update_transactions j g db))
     = map (\<lambda>t. if txn_id t = j then g t else t) (transactions (working db))"
  "accounts (working (add_transaction t db)) = accounts (working db)"
  "categories (working (add_transaction t db)) = categories (working db)"
  "transactions (working (add_transaction t db)) = transactions (working db) @ [t]"
  "accounts (working (delete_row j db)) = accounts (working db)"
  "categories (working (delete_row j db)) = categories (working db)"
  "transactions (working (delete_row j db))
     = filter (\<lambda>t. txn_id t \<noteq> j) (transactions (working db))"
  by (simp_all add: update_accounts_def update_transactions_def add_transaction_def delete_row_def)

lemma max_id_ge: "i \<in> set ids \<Longrightarrow> i \<le> max_id ids"
  by (induction ids) auto

lemma next_id_fresh: "i \<in> set ids \<Longrightarrow> i < next_id ids"
  by (simp add: next_id_def max_id_ge less_Suc_eq_le)

lemma max_id_append: "max_id (xs @ ys) = max (max_id xs) (max_id ys)"
  by (induction xs) auto

lemma next_id_snoc: "next_id (ids @ [next_id ids]) = Suc (next_id ids)"
  by (simp add: next_id_def max_id_append)

lemma find_map_keyed:
  assumes "\<And>a. key (f a) = key a"
  shows "find (\<lambda>a. key a = j) (map (\<lambda>a. if key a = i then f a else a) xs)
       = map_option (\<lambda>a. if key a = i then f a else a) (find (\<lambda>a. key a = j) xs)"
  using assms by (induction xs) auto

lemma map_other_key:
  "\<forall>t \<in> set ts. key t \<noteq> n \<Longrightarrow> map (\<lambda>t. if key t = n then f t else t) ts = ts"
  by (induction ts) auto

lemma find_other_key:
  "\<forall>t \<in> set ts. key t \<noteq> n \<Longrightarrow> find (\<lambda>t. key t = n) (ts @ us) = find (\<lambda>t. key t = n) us"
  by (induction ts) auto

lemma filter_other_key:
  "\<forall>t \<in> set ts. key t \<noteq> n \<Longrightarrow> filter (\<lambda>t. key t \<noteq> n) ts = ts"
  by (induction ts) auto

lemma txn_ids_below_next: "t \<in> set ts \<Longrightarrow> txn_id t < next_id (map txn_id ts)"
  by (rule next_id_fresh) simp

lemma txn_ids_not_next: "\<forall>t \<in> set ts. txn_id t \<noteq> next_id (map txn_id ts)"
  using txn_ids_below_next by fastforce

lemma txn_ids_not_Suc_next: "\<forall>t \<in> set ts. txn_id t \<noteq> Suc (next_id (map txn_id ts))"
  using txn_ids_below_next by fastforce

lemma query_account_update:
  assumes "\<And>a. acc_id (f a) = acc_id a"
  shows "query_account (update_accounts i f db) j
       = map_option (\<lambda>a. if acc_id a = i then f a else a) (query_account db j)"
  using find_map_keyed [of acc_id f, OF assms] by (simp add: query_account_def)

lemma query_account_simps [simp]:
  "query_account (update_transactions j g db) i = query_account db i"
  "query_account (add_transaction t db) i = query_account db i"
  "query_account (delete_row j db) i = query_account db i"
  "query_account (commit db) i = query_account db i"
  "query_account (SessionLocal (working db)) i = query_account db i"
  by (simp_all add: query_account_def)

lemma query_account_id: "query_account db i = Some a \<Longrightarrow> acc_id a = i"
  by (auto simp: query_account_def find_Some_iff)

lemma query_category_simps [simp]:
  "query_category (update_accounts i f db) k = query_category db k"
  "query_category (update_transactions j g db) k = query_category db k"
  "query_category (add_transaction t db) k = query_category db k"
  "query_category (delete_row j db) k = query_category db k"
  "query_category (commit db) k = query_category db k"
  "query_category (SessionLocal (working db)) k = query_category db k"
  by (simp_all add: query_category_def split: option.splits)

lemma get_category_type_simps [simp]:
  "get_category_type (update_accounts i f db) c = get_category_type db c"
  "get_category_type (update_transactions j g db) c = get_category_type db c"
  "get_category_type (add_transaction t db) c = get_category_type db c"
  "get_category_type (delete_row j db) c = get_category_type db c"
  "get_category_type (commit db) c = get_category_type db c"
  "get_category_type (SessionLocal (working db)) c = get_category_type db c"
  by (simp_all add: get_category_type_def parent_def)

lemma query_transaction_simps [simp]:
  "query_transaction (update_accounts i f db) k = query_transaction db k"
  "query_transaction (commit db) k = query_transaction db k"
  "query_transaction (SessionLocal (working db)) k = query_transaction db k"
  by (simp_all add: query_transaction_def split: option.splits)



lemma txn_id_merge [simp]: "txn_id (merge u t) = txn_id t"
  by (simp add: merge_def)

lemma limit_check_balance_update [simp]:
  "limit_check (a\<lparr>balance := b\<rparr>) x m = limit_check a x m"
  by (simp add: limit_check_def)

lemma limit_check_None_iff:
  "limit_check a x m = None
     \<longleftrightarrow> (if account_type a = ''credit'' then \<bar>x\<bar> \<le> credit_limit a else 0 \<le> x)"
  by (simp add: limit_check_def)

lemma reverse_effect_committed:
  "reverse_effect ty a amt db = Inr db1 \<Longrightarrow> committed db1 = committed db"
  by (auto simp: reverse_effect_def split: if_splits option.splits)

text \<open>Unfolding the endpoints on a concrete ledger.\<close>

lemmas endpoint_defs =
  get_db_def make_transfer_def update_transaction_def delete_transaction_def
  create_transaction_def create_account_def update_account_def
  SessionLocal_def commit_def rollback_def query_account_def query_category_def
  query_transaction_def update_accounts_def update_transactions_def add_transaction_def
  add_account_def delete_row_def limit_check_def get_category_type_def truthy_def parent_def
  merge_def reverse_effect_def next_id_def arrow_out_def arrow_in_def valid_account_type_def
  name_taken_def balance_of_def transfer_legs_def Let_def

lemmas ledger_defs =
  ledger_def ledger_lunch_def ledger_moved_def ledger_named_def empty_store_def lunch_def
  leg_out_def leg_in_def dinner_def ledger_dinner_def joint_def ledger_named_moved_def
  cash_def debit_card_def visa_def food_def salary_def bonus_def

subsection \<open>Category resolution\<close>




subsection \<open>Transfers that fail the source check\<close>

text \<open>
  C7. When both accounts exist and the source fails its check, make_transfer fails before
  any mutation and the store is the one it started from, so both balances are unchanged and
  no row is created: a cash or debit source with balance minus amount below zero gives
  "Insufficient funds in sender account", a credit source whose balance minus amount leaves
  the credit limit in absolute value gives "Credit limit exceeded" (both status 400).
\<close>

theorem make_transfer_rejected:
  assumes "query_account (SessionLocal st) (from_account_id tr) = Some fa"
      and "query_account (SessionLocal st) (to_account_id tr) = Some ta"
  shows "((account_type fa = ''cash'' \<or> account_type fa = ''debit'') \<and> balance fa - tr_amount tr < 0
            \<longrightarrow> get_db (make_transfer tr now) st
                 = (Inl (HTTPException 400 ''Insufficient funds in sender account''), st))
       \<and> (account_type fa = ''credit'' \<and> \<bar>balance fa - tr_amount tr\<bar> > credit_limit fa
            \<longrightarrow> get_db (make_transfer tr now) st
                 = (Inl (HTTPException 400 ''Credit limit exceeded''), st))"
  using assms
  by (auto simp: get_db_def make_transfer_def limit_check_def)

text \<open>5000 out of a cash account holding 1000, and 6000 out of a credit account of limit 5000.\<close>

theorem make_transfer_rejected_witness:
  "get_db (make_transfer \<lparr>from_account_id = 1, to_account_id = 2, tr_amount = 5000\<rparr> 7) ledger
     = (Inl (HTTPException 400 ''Insufficient funds in sender account''), ledger)
   \<and> get_db (make_transfer \<lparr>from_account_id = 3, to_account_id = 1, tr_amount = 6000\<rparr> 7) ledger
     = (Inl (HTTPException 400 ''Credit limit exceeded''), ledger)"
proof -
  have q: "query_account (SessionLocal ledger) 1 = Some cash"
          "query_account (SessionLocal ledger) 2 = Some debit_card"
          "query_account (SessionLocal ledger) 3 = Some visa"
    by (simp_all add: query_account_def ledger_defs)
  have a: "(account_type cash = ''cash'' \<or> account_type cash = ''debit'') \<and> balance cash - 5000 < 0"
    by (simp add: cash_def)
  have b: "account_type visa = ''credit'' \<and> \<bar>balance visa - 6000\<bar> > credit_limit visa"
    by (simp add: visa_def)
  from make_transfer_rejected
         [of ledger "\<lparr>from_account_id = 1, to_account_id = 2, tr_amount = 5000\<rparr>" cash debit_card 7] q a
  have 1: "get_db (make_transfer \<lparr>from_account_id = 1, to_account_id = 2, tr_amount = 5000\<rparr> 7) ledger
     = (Inl (HTTPException 400 ''Insufficient funds in sender account''), ledger)"
    by simp
  from make_transfer_rejected
         [of ledger "\<lparr>from_account_id = 3, to_account_id = 1, tr_amount = 6000\<rparr>" visa cash 7] q b
  have 2: "get_db (make_transfer \<lparr>from_account_id = 3, to_account_id = 1, tr_amount = 6000\<rparr> 7) ledger
     = (Inl (HTTPException 400 ''Credit limit exceeded''), ledger)"
    by simp
  from 1 2 show ?thesis by simp
qed

subsection \<open>The rate limiter\<close>

text \<open>
  C9. If the pipelined round trip raises, or the expiry set on a key without one raises,
  the check fails open: allowed with remaining = max_requests. If the store answers (the
  pipeline returns count \<open>c\<close> and time to live \<open>t\<close>, and the expiry is set when \<open>t = -1\<close>),
  then \<open>c\<close> is the stored count plus one, allowed = (c \<le> max_requests) and
  remaining = max 0 (max_requests - c).
\<close>

theorem check_rate_limit_result:
  "(pipeline_incr_ttl (''ratelimit:'' @ ip) r = (Inl e, r1)
      \<longrightarrow> fst (check_rate_limit ip m w r) = \<lparr>allowed = True, current = 0, limit = m, remaining = m\<rparr>)
 \<and> (pipeline_incr_ttl (''ratelimit:'' @ ip) r = (Inr (c, - 1), r1)
      \<and> expire (''ratelimit:'' @ ip) w r1 = (Inl e, r2)
      \<longrightarrow> fst (check_rate_limit ip m w r) = \<lparr>allowed = True, current = 0, limit = m, remaining = m\<rparr>)
 \<and> (pipeline_incr_ttl (''ratelimit:'' @ ip) r = (Inr (c, t), r1)
      \<and> (t = - 1 \<longrightarrow> expire (''ratelimit:'' @ ip) w r1 = (Inr (), r2))
      \<longrightarrow> c = stored_count r (''ratelimit:'' @ ip) + 1
        \<and> allowed (fst (check_rate_limit ip m w r)) = (c \<le> m)
        \<and> remaining (fst (check_rate_limit ip m w r)) = max 0 (m - c))"
  by (auto simp: check_rate_limit_def pipeline_incr_ttl_def stored_count_def round_trip_def Let_def
           split: prod.splits bool.splits option.splits sum.splits if_splits list.splits)

text \<open>
  A store that is down, a store that fails on the second round trip, a client that has used
  its 100 requests, and a first request.
\<close>

theorem check_rate_limit_result_witness:
  "fst (check_rate_limit ''10.0.0.1'' 100 60 \<lparr>entries = Map.empty, faults = [True]\<rparr>)
     = \<lparr>allowed = True, current = 0, limit = 100, remaining = 100\<rparr>
   \<and> fst (check_rate_limit ''10.0.0.1'' 100 60 \<lparr>entries = Map.empty, faults = [False, True]\<rparr>)
     = \<lparr>allowed = True, current = 0, limit = 100, remaining = 100\<rparr>
   \<and> allowed (fst (check_rate_limit ''10.0.0.1'' 100 60
                     \<lparr>entries = [''ratelimit:10.0.0.1'' \<mapsto> (100, 30)], faults = []\<rparr>)) = False
   \<and> remaining (fst (check_rate_limit ''10.0.0.1'' 100 60
                     \<lparr>entries = [''ratelimit:10.0.0.1'' \<mapsto> (100, 30)], faults = []\<rparr>)) = 0
   \<and> allowed (fst (check_rate_limit ''10.0.0.1'' 100 60 \<lparr>entries = Map.empty, faults = []\<rparr>)) = True
   \<and> remaining (fst (check_rate_limit ''10.0.0.1'' 100 60 \<lparr>entries = Map.empty, faults = []\<rparr>)) = 99"
proof -
  let ?key = "''ratelimit:'' @ ''10.0.0.1''"
  let ?down = "\<lparr>entries = Map.empty, faults = [True]\<rparr>"
  let ?flaky = "\<lparr>entries = Map.empty, faults = [False, True]\<rparr>"
  let ?full = "\<lparr>entries = [''ratelimit:10.0.0.1'' \<mapsto> (100, 30)], faults = []\<rparr>"
  let ?fresh = "\<lparr>entries = Map.empty, faults = []\<rparr>"
  have a: "pipeline_incr_ttl ?key ?down = (Inl RedisError, snd (pipeline_incr_ttl ?key ?down))"
    by (simp add: pipeline_incr_ttl_def round_trip_def Let_def)
  have b: "pipeline_incr_ttl ?key ?flaky = (Inr (1, - 1), snd (pipeline_incr_ttl ?key ?flaky))
           \<and> expire ?key 60 (snd (pipeline_incr_ttl ?key ?flaky))
               = (Inl RedisError, snd (expire ?key 60 (snd (pipeline_incr_ttl ?key ?flaky))))"
    by (simp add: pipeline_incr_ttl_def expire_def round_trip_def Let_def)
  have c: "pipeline_incr_ttl ?key ?full = (Inr (101, 30), snd (pipeline_incr_ttl ?key ?full))
           \<and> ((30::int) = - 1 \<longrightarrow> expire ?key 60 (snd (pipeline_incr_ttl ?key ?full)) = (Inr (), ?fresh))"
    by (simp add: pipeline_incr_ttl_def round_trip_def Let_def)
  have d: "pipeline_incr_ttl ?key ?fresh = (Inr (1, - 1), snd (pipeline_incr_ttl ?key ?fresh))
           \<and> ((- 1::int) = - 1 \<longrightarrow> expire ?key 60 (snd (pipeline_incr_ttl ?key ?fresh))
                 = (Inr (), snd (expire ?key 60 (snd (pipeline_incr_ttl ?key ?fresh)))))"
    by (simp add: pipeline_incr_ttl_def expire_def round_trip_def Let_def)
  from a check_rate_limit_result [where ip = "''10.0.0.1''" and r = ?down and e = RedisError
           and ?r1.0 = "snd (pipeline_incr_ttl ?key ?down)" and m = 100 and w = 60]
  have 1: "fst (check_rate_limit ''10.0.0.1'' 100 60 ?down)
             = \<lparr>allowed = True, current = 0, limit = 100, remaining = 100\<rparr>"
    by blast
  from b check_rate_limit_result [where ip = "''10.0.0.1''" and r = ?flaky and e = RedisError
           and ?r1.0 = "snd (pipeline_incr_ttl ?key ?flaky)" and m = 100 and w = 60 and c = 1
           and ?r2.0 = "snd (expire ?key 60 (snd (pipeline_incr_ttl ?key ?flaky)))"]
  have 2: "fst (check_rate_limit ''10.0.0.1'' 100 60 ?flaky)
             = \<lparr>allowed = True, current = 0, limit = 100, remaining = 100\<rparr>"
    by blast
  from c check_rate_limit_result [where ip = "''10.0.0.1''" and r = ?full
           and ?r1.0 = "snd (pipeline_incr_ttl ?key ?full)" and m = 100 and w = 60 and c = 101
           and ?r2.0 = ?fresh and t = 30]
  have 3: "allowed (fst (check_rate_limit ''10.0.0.1'' 100 60 ?full)) = ((101::int) \<le> 100)
         \<and> remaining (fst (check_rate_limit ''10.0.0.1'' 100 60 ?full)) = max 0 (100 - 101)"
    by blast
  from d check_rate_limit_result [where ip = "''10.0.0.1''" and r = ?fresh
           and ?r1.0 = "snd (pipeline_incr_ttl ?key ?fresh)" and m = 100 and w = 60 and c = 1
           and ?r2.0 = "snd (expire ?key 60 (snd (pipeline_incr_ttl ?key ?fresh)))" and t = "- 1"]
  have 4: "allowed (fst (check_rate_limit ''10.0.0.1'' 100 60 ?fresh)) = ((1::int) \<le> 100)
         \<and> remaining (fst (check_rate_limit ''10.0.0.1'' 100 60 ?fresh)) = max 0 (100 - 1)"
    by blast
  from 1 2 3 4 show ?thesis by simp
qed

subsection \<open>Updates that fail\<close>

lemma update_transaction_error_keeps_store:
  "update_transaction tid upd db = (Inl e, db') \<Longrightarrow> committed db' = committed db"
  by (auto simp: update_transaction_def Let_def dest: reverse_effect_committed
           split: option.splits sum.splits if_splits prod.splits)

lemma ledger_lunch_reached:
  "get_db (create_transaction
             \<lparr>tc_amount = 200, tc_description = Some ''Lunch'', tc_account_id = 1,
              tc_category_id = Some 1, tc_created_at = None\<rparr> 7) ledger = (Inr lunch, ledger_lunch)"
  by (simp add: endpoint_defs ledger_defs)


text \<open>
  C6. Whenever update_transaction answers with an error, the committed store is the one the
  call started from: the reversal of the old effect, the merged fields of the row and every
  balance are as before. This covers the failures of the apply step ("Credit limit
  exceeded", "Insufficient funds", "Account or Category not found").
\<close>

theorem update_transaction_aborts:
  "fst (get_db (update_transaction tid upd) st) = Inl e
     \<Longrightarrow> snd (get_db (update_transaction tid upd) st) = st"
  using update_transaction_error_keeps_store [of tid upd "SessionLocal st" e]
  by (auto simp: get_db_def split: prod.splits)

text \<open>
  On the ledger after the lunch: raising the amount to 5000, moving the row to an account
  that does not exist, and moving it to the credit account with amount 6000.
\<close>

theorem update_transaction_aborts_witness:
  "fst (get_db (update_transaction 1
                 \<lparr>tu_amount = Some 5000, tu_description = None, tu_account_id = None,
                  tu_category_id = None, tu_created_at = None\<rparr>) ledger_lunch)
     = Inl (HTTPException 400 ''Insufficient funds'')
   \<and> snd (get_db (update_transaction 1
                 \<lparr>tu_amount = Some 5000, tu_description = None, tu_account_id = None,
                  tu_category_id = None, tu_created_at = None\<rparr>) ledger_lunch)
     = ledger_lunch
   \<and> fst (get_db (update_transaction 1
                 \<lparr>tu_amount = None, tu_description = None, tu_account_id = Some 9,
                  tu_category_id = None, tu_created_at = None\<rparr>) ledger_lunch)
     = Inl (HTTPException 404 ''Account or Category not found'')
   \<and> snd (get_db (update_transaction 1
                 \<lparr>tu_amount = None, tu_description = None, tu_account_id = Some 9,
                  tu_category_id = None, tu_created_at = None\<rparr>) ledger_lunch)
     = ledger_lunch
   \<and> fst (get_db (update_transaction 1
                 \<lparr>tu_amount = Some 6000, tu_description = None, tu_account_id = Some 3,
                  tu_category_id = None, tu_created_at = None\<rparr>) ledger_lunch)
     = Inl (HTTPException 400 ''Credit limit exceeded'')
   \<and> snd (get_db (update_transaction 1
                 \<lparr>tu_amount = Some 6000, tu_description = None, tu_account_id = Some 3,
                  tu_category_id = None, tu_created_at = None\<rparr>) ledger_lunch)
     = ledger_lunch"
proof -
  let ?big = "\<lparr>tu_amount = Some 5000, tu_description = None, tu_account_id = None,
               tu_category_id = None, tu_created_at = None\<rparr>"
  let ?gone = "\<lparr>tu_amount = None, tu_description = None, tu_account_id = Some 9,
               tu_category_id = None, tu_created_at = None\<rparr>"
  let ?over = "\<lparr>tu_amount = Some 6000, tu_description = None, tu_account_id = Some 3,
               tu_category_id = None, tu_created_at = None\<rparr>"
  have a: "fst (get_db (update_transaction 1 ?big) ledger_lunch)
             = Inl (HTTPException 400 ''Insufficient funds'')"
    by (simp add: endpoint_defs ledger_defs)
  have b: "fst (get_db (update_transaction 1 ?gone) ledger_lunch)
             = Inl (HTTPException 404 ''Account or Category not found'')"
    by (simp add: endpoint_defs ledger_defs)
  have c: "fst (get_db (update_transaction 1 ?over) ledger_lunch)
             = Inl (HTTPException 400 ''Credit limit exceeded'')"
    by (simp add: endpoint_defs ledger_defs)
  from a b c update_transaction_aborts [OF a] update_transaction_aborts [OF b]
    update_transaction_aborts [OF c]
  show ?thesis by simp
qed




subsection \<open>Create, update, delete of an expense\<close>



subsection \<open>Transfers that pass the source check\<close>

lemma make_transfer_success:
  assumes fa: "query_account (SessionLocal st) (from_account_id tr) = Some fa"
      and ta: "query_account (SessionLocal st) (to_account_id tr) = Some ta"
      and ne: "from_account_id tr \<noteq> to_account_id tr"
      and ok: "limit_check fa (balance fa - tr_amount tr) ''Insufficient funds in sender account'' = None"
  shows "get_db (make_transfer tr now) st =
          (Inr \<lparr>status = ''success'', from_balance = balance fa - tr_amount tr,
                 to_balance = balance ta + tr_amount tr\<rparr>,
           st\<lparr>accounts := map (\<lambda>a. if acc_id a = to_account_id tr
                                     then a\<lparr>balance := balance a + tr_amount tr\<rparr> else a)
                            (map (\<lambda>a. if acc_id a = from_account_id tr
                                     then a\<lparr>balance := balance fa - tr_amount tr\<rparr> else a) (accounts st)),
               transactions := transactions st @ transfer_legs st fa ta (tr_amount tr) now\<rparr>)"
proof -
  have ids: "acc_id fa = from_account_id tr" "acc_id ta = to_account_id tr"
    using fa ta by (auto dest: query_account_id)
  show ?thesis
    using fa ta ne ok ids
    by (simp add: make_transfer_def get_db_def Let_def query_account_update
       next_id_snoc map_other_key txn_ids_not_next transfer_legs_def)
qed

lemma make_transfer_balances:
  assumes fa: "query_account (SessionLocal st) (from_account_id tr) = Some fa"
      and ta: "query_account (SessionLocal st) (to_account_id tr) = Some ta"
      and ne: "from_account_id tr \<noteq> to_account_id tr"
      and ok: "limit_check fa (balance fa - tr_amount tr) ''Insufficient funds in sender account'' = None"
  shows "query_account (SessionLocal (snd (get_db (make_transfer tr now) st))) (from_account_id tr)
           = Some (fa\<lparr>balance := balance fa - tr_amount tr\<rparr>)"
    and "query_account (SessionLocal (snd (get_db (make_transfer tr now) st))) (to_account_id tr)
           = Some (ta\<lparr>balance := balance ta + tr_amount tr\<rparr>)"
proof -
  have ids: "acc_id fa = from_account_id tr" "acc_id ta = to_account_id tr"
    using fa ta by (auto dest: query_account_id)
  show "query_account (SessionLocal (snd (get_db (make_transfer tr now) st))) (from_account_id tr)
           = Some (fa\<lparr>balance := balance fa - tr_amount tr\<rparr>)"
    using fa ne ids unfolding make_transfer_success [OF fa ta ne ok]
    by (simp add: query_account_def find_map_keyed del: map_map)
  show "query_account (SessionLocal (snd (get_db (make_transfer tr now) st))) (to_account_id tr)
           = Some (ta\<lparr>balance := balance ta + tr_amount tr\<rparr>)"
    using ta ne ids unfolding make_transfer_success [OF fa ta ne ok]
    by (simp add: query_account_def find_map_keyed del: map_map)
qed

lemma find_fresh_legs:
  "find (\<lambda>t. txn_id t = next_id (map txn_id ts)) (ts @ [a, b])
     = (if txn_id a = next_id (map txn_id ts) then Some a
        else if txn_id b = next_id (map txn_id ts) then Some b else None)"
  "find (\<lambda>t. txn_id t = Suc (next_id (map txn_id ts))) (ts @ [a, b])
     = (if txn_id a = Suc (next_id (map txn_id ts)) then Some a
        else if txn_id b = Suc (next_id (map txn_id ts)) then Some b else None)"
  by (simp_all add: find_other_key txn_ids_not_next txn_ids_not_Suc_next)




subsection \<open>What the guard leaves behind\<close>

lemma create_transaction_guard:
  assumes "get_db (create_transaction t now) st = (Inr row, st')"
      and "query_account (SessionLocal st') (account_id row) = Some a'"
      and "query_category (SessionLocal st') (category_id row) = Some cat"
      and "get_category_type (SessionLocal st') cat = ''expense''"
  shows "within_limit a'"
  using assms
  by (auto simp: get_db_def create_transaction_def Let_def query_account_update
        limit_check_None_iff within_limit_def
        dest: query_account_id
        split: option.splits if_splits)

lemma update_transaction_guard:
  assumes "get_db (update_transaction tid u) st = (Inr row, st')"
      and "query_account (SessionLocal st') (account_id row) = Some a'"
      and "query_category (SessionLocal st') (category_id row) = Some cat"
      and "get_category_type (SessionLocal st') cat = ''expense''"
  shows "within_limit a'"
  using assms
  by (auto simp: get_db_def update_transaction_def Let_def query_account_update
        limit_check_None_iff within_limit_def
        dest: query_account_id
        split: option.splits if_splits sum.splits)

lemma make_transfer_Inr:
  assumes "get_db (make_transfer tr now) st = (Inr resp, st')"
  obtains fa ta where "query_account (SessionLocal st) (from_account_id tr) = Some fa"
      and "query_account (SessionLocal st) (to_account_id tr) = Some ta"
      and "limit_check fa (balance fa - tr_amount tr) ''Insufficient funds in sender account'' = None"
  using assms
  by (auto simp: get_db_def make_transfer_def Let_def split: option.splits prod.splits)

lemma make_transfer_guard:
  assumes ok: "get_db (make_transfer tr now) st = (Inr resp, st')"
      and ne: "from_account_id tr \<noteq> to_account_id tr"
      and a': "query_account (SessionLocal st') (from_account_id tr) = Some a'"
  shows "within_limit a'"
proof -
  from ok obtain fa ta where fa: "query_account (SessionLocal st) (from_account_id tr) = Some fa"
      and ta: "query_account (SessionLocal st) (to_account_id tr) = Some ta"
      and chk: "limit_check fa (balance fa - tr_amount tr) ''Insufficient funds in sender account'' = None"
    by (rule make_transfer_Inr)
  have "a' = fa\<lparr>balance := balance fa - tr_amount tr\<rparr>"
    using make_transfer_balances(1) [OF fa ta ne chk, of now] ok a' by simp
  with chk show ?thesis
    by (auto simp: limit_check_None_iff within_limit_def split: if_splits)
qed

lemma ledger_dinner_reached:
  "get_db (create_transaction
             \<lparr>tc_amount = 3000, tc_description = Some ''Dinner'', tc_account_id = 3,
              tc_category_id = Some 1, tc_created_at = None\<rparr> 7) ledger = (Inr dinner, ledger_dinner)"
  by (simp add: endpoint_defs ledger_defs)

text \<open>
  C1 (amended). A credit account is within its limit, \<open>\<bar>balance\<bar> \<le> credit_limit\<close>, in the
  store committed by each operation that checks it: a successful create_transaction or
  update_transaction whose (merged) row is on that account with a category of effective
  type expense, and a successful make_transfer out of that account to another account.
\<close>

theorem credit_limit_guarded:
  "(get_db (create_transaction t now) st = (Inr row, st')
      \<and> query_account (SessionLocal st') (account_id row) = Some a
      \<and> query_category (SessionLocal st') (category_id row) = Some cat
      \<and> get_category_type (SessionLocal st') cat = ''expense''
      \<and> account_type a = ''credit''
      \<longrightarrow> \<bar>balance a\<bar> \<le> credit_limit a)
 \<and> (get_db (update_transaction tid u) st = (Inr row, st')
      \<and> query_account (SessionLocal st') (account_id row) = Some a
      \<and> query_category (SessionLocal st') (category_id row) = Some cat
      \<and> get_category_type (SessionLocal st') cat = ''expense''
      \<and> account_type a = ''credit''
      \<longrightarrow> \<bar>balance a\<bar> \<le> credit_limit a)
 \<and> (get_db (make_transfer tr now) st = (Inr resp, st')
      \<and> from_account_id tr \<noteq> to_account_id tr
      \<and> query_account (SessionLocal st') (from_account_id tr) = Some a
      \<and> account_type a = ''credit''
      \<longrightarrow> \<bar>balance a\<bar> \<le> credit_limit a)"
  using create_transaction_guard [of t now st row st' a cat]
        update_transaction_guard [of tid u st row st' a cat]
        make_transfer_guard [of tr now st resp st' a]
  by (auto simp: within_limit_def)

text \<open>
  A dinner of 3000 on the credit card (limit 5000), its amount corrected to 4000, and a
  transfer of 3000 from the credit card to Cash.
\<close>

theorem credit_limit_guarded_witness:
  "get_db (create_transaction
             \<lparr>tc_amount = 3000, tc_description = Some ''Dinner'', tc_account_id = 3,
              tc_category_id = Some 1, tc_created_at = None\<rparr> 7) ledger = (Inr dinner, ledger_dinner)
   \<and> query_account (SessionLocal ledger_dinner) 3 = Some (visa\<lparr>balance := - 3000\<rparr>)
   \<and> \<bar>balance (visa\<lparr>balance := - 3000\<rparr>)\<bar> \<le> credit_limit (visa\<lparr>balance := - 3000\<rparr>)
   \<and> get_db (update_transaction 1
                \<lparr>tu_amount = Some 4000, tu_description = None, tu_account_id = None,
                 tu_category_id = None, tu_created_at = None\<rparr>) ledger_dinner
       = (Inr (dinner\<lparr>amount := 4000\<rparr>),
          ledger_dinner\<lparr>accounts := [cash, debit_card, visa\<lparr>balance := - 4000\<rparr>],
                        transactions := [dinner\<lparr>amount := 4000\<rparr>]\<rparr>)
   \<and> \<bar>balance (visa\<lparr>balance := - 4000\<rparr>)\<bar> \<le> credit_limit (visa\<lparr>balance := - 4000\<rparr>)
   \<and> fst (get_db (make_transfer \<lparr>from_account_id = 3, to_account_id = 1, tr_amount = 3000\<rparr> 7) ledger)
       = Inr \<lparr>status = ''success'', from_balance = - 3000, to_balance = 4000\<rparr>
   \<and> query_account
        (SessionLocal (snd (get_db (make_transfer \<lparr>from_account_id = 3, to_account_id = 1, tr_amount = 3000\<rparr> 7) ledger))) 3
       = Some (visa\<lparr>balance := - 3000\<rparr>)"
proof -
  let ?up = "\<lparr>tu_amount = Some 4000, tu_description = None, tu_account_id = None,
               tu_category_id = None, tu_created_at = None\<rparr>"
  let ?st2 = "ledger_dinner\<lparr>accounts := [cash, debit_card, visa\<lparr>balance := - 4000\<rparr>],
                        transactions := [dinner\<lparr>amount := 4000\<rparr>]\<rparr>"
  let ?tr = "\<lparr>from_account_id = 3, to_account_id = 1, tr_amount = 3000\<rparr>"
  let ?st3 = "snd (get_db (make_transfer ?tr 7) ledger)"
  let ?resp = "\<lparr>status = ''success'', from_balance = - 3000, to_balance = 4000\<rparr>"
  note a1 = ledger_dinner_reached
  have a2: "query_account (SessionLocal ledger_dinner) (account_id dinner) = Some (visa\<lparr>balance := - 3000\<rparr>)"
    by (simp add: query_account_def ledger_defs)
  have a3: "query_category (SessionLocal ledger_dinner) (category_id dinner) = Some food"
    by (simp add: query_category_def ledger_defs)
  have a4: "get_category_type (SessionLocal ledger_dinner) food = ''expense''"
    by (simp add: get_category_type_def truthy_def food_def)
  have a5: "account_type (visa\<lparr>balance := - 3000\<rparr>) = ''credit''"
    by (simp add: visa_def)
  from a1 a2 a3 a4 a5
    credit_limit_guarded [where t = "\<lparr>tc_amount = 3000, tc_description = Some ''Dinner'', tc_account_id = 3,
              tc_category_id = Some 1, tc_created_at = None\<rparr>" and now = 7 and st = ledger and row = dinner
       and st' = ledger_dinner and a = "visa\<lparr>balance := - 3000\<rparr>" and cat = food]
  have A: "\<bar>balance (visa\<lparr>balance := - 3000\<rparr>)\<bar> \<le> credit_limit (visa\<lparr>balance := - 3000\<rparr>)"
    by blast
  have b1: "get_db (update_transaction 1 ?up) ledger_dinner = (Inr (dinner\<lparr>amount := 4000\<rparr>), ?st2)"
    by (simp add: endpoint_defs ledger_defs)
  have b2: "query_account (SessionLocal ?st2) (account_id (dinner\<lparr>amount := 4000\<rparr>))
              = Some (visa\<lparr>balance := - 4000\<rparr>)"
    by (simp add: query_account_def ledger_defs)
  have b3: "query_category (SessionLocal ?st2) (category_id (dinner\<lparr>amount := 4000\<rparr>)) = Some food"
    by (simp add: query_category_def ledger_defs)
  have b4: "get_category_type (SessionLocal ?st2) food = ''expense''"
    by (simp add: get_category_type_def truthy_def food_def)
  have b5: "account_type (visa\<lparr>balance := - 4000\<rparr>) = ''credit''"
    by (simp add: visa_def)
  from b1 b2 b3 b4 b5
    credit_limit_guarded [where tid = 1 and u = ?up and st = ledger_dinner and row = "dinner\<lparr>amount := 4000\<rparr>"
       and st' = ?st2 and a = "visa\<lparr>balance := - 4000\<rparr>" and cat = food]
  have B: "\<bar>balance (visa\<lparr>balance := - 4000\<rparr>)\<bar> \<le> credit_limit (visa\<lparr>balance := - 4000\<rparr>)"
    by blast
  have c0': "fst (get_db (make_transfer ?tr 7) ledger) = Inr ?resp"
    by (simp add: endpoint_defs ledger_defs)
  have c0: "get_db (make_transfer ?tr 7) ledger = (Inr ?resp, ?st3)"
    using c0' by (simp add: prod_eq_iff)
  have c1: "from_account_id ?tr \<noteq> to_account_id ?tr" by simp
  have c2: "query_account (SessionLocal ?st3) (from_account_id ?tr) = Some (visa\<lparr>balance := - 3000\<rparr>)"
    by (simp add: endpoint_defs ledger_defs)
  from c0 c1 c2 a5
    credit_limit_guarded [where tr = ?tr and now = 7 and st = ledger and resp = ?resp
       and st' = ?st3 and a = "visa\<lparr>balance := - 3000\<rparr>"]
  have C: "\<bar>balance (visa\<lparr>balance := - 3000\<rparr>)\<bar> \<le> credit_limit (visa\<lparr>balance := - 3000\<rparr>)"
    by blast
  have a2': "query_account (SessionLocal ledger_dinner) 3 = Some (visa\<lparr>balance := - 3000\<rparr>)"
    using a2 by (simp add: dinner_def)
  have c2': "query_account (SessionLocal ?st3) 3 = Some (visa\<lparr>balance := - 3000\<rparr>)"
    using c2 by simp
  from a1 a2' A b1 B c0' c2' show ?thesis
    by (intro conjI)
qed

text \<open>
  An income posting adds to the balance without a check (lines 305 and 306): a credit
  account created with balance 0 and limit 5000 holds 6000 after a refund of 6000. And
  create_account checks the limit to be positive, not the balance against it: a credit
  account may be created owing 6000 on a limit of 5000.
\<close>

theorem credit_limit_counterexample:
  "get_db (create_account
             \<lparr>ac_name = ''Visa'', ac_balance = 0, ac_account_type = ''credit'', ac_credit_limit = 5000\<rparr>)
          (empty_store\<lparr>categories := [food, salary]\<rparr>)
     = (Inr (visa\<lparr>acc_id := 1\<rparr>),
        \<lparr>accounts = [visa\<lparr>acc_id := 1\<rparr>], categories = [food, salary], transactions = []\<rparr>)
   \<and> snd (get_db (create_transaction
             \<lparr>tc_amount = 6000, tc_description = Some ''Refund'', tc_account_id = 1,
              tc_category_id = Some 2, tc_created_at = None\<rparr> 7)
          \<lparr>accounts = [visa\<lparr>acc_id := 1\<rparr>], categories = [food, salary], transactions = []\<rparr>)
     = \<lparr>accounts = [visa\<lparr>acc_id := 1, balance := 6000\<rparr>], categories = [food, salary],
        transactions = [\<lparr>txn_id = 1, amount = 6000, description = Some ''Refund'', created_at = 7,
                         account_id = 1, category_id = Some 2, is_transfer = False,
                         transfer_pair_id = None\<rparr>]\<rparr>
   \<and> account_type (visa\<lparr>acc_id := 1, balance := 6000\<rparr>) = ''credit''
   \<and> \<not> \<bar>balance (visa\<lparr>acc_id := 1, balance := 6000\<rparr>)\<bar> \<le> credit_limit (visa\<lparr>acc_id := 1, balance := 6000\<rparr>)
   \<and> get_db (create_account
             \<lparr>ac_name = ''Visa'', ac_balance = - 6000, ac_account_type = ''credit'', ac_credit_limit = 5000\<rparr>)
          empty_store
     = (Inr (visa\<lparr>acc_id := 1, balance := - 6000\<rparr>),
        \<lparr>accounts = [visa\<lparr>acc_id := 1, balance := - 6000\<rparr>], categories = [], transactions = []\<rparr>)
   \<and> \<not> \<bar>balance (visa\<lparr>acc_id := 1, balance := - 6000\<rparr>)\<bar>
         \<le> credit_limit (visa\<lparr>acc_id := 1, balance := - 6000\<rparr>)"
  by (simp add: endpoint_defs ledger_defs)

text \<open>
  C2 (amended). A cash or debit account has a balance of at least zero in the store
  committed by each operation that checks it: a successful create_transaction or
  update_transaction whose (merged) row is on that account with a category of effective
  type expense, and a successful make_transfer out of that account to another account.
\<close>

theorem nonnegative_guarded:
  "(get_db (create_transaction t now) st = (Inr row, st')
      \<and> query_account (SessionLocal st') (account_id row) = Some a
      \<and> query_category (SessionLocal st') (category_id row) = Some cat
      \<and> get_category_type (SessionLocal st') cat = ''expense''
      \<and> (account_type a = ''cash'' \<or> account_type a = ''debit'')
      \<longrightarrow> 0 \<le> balance a)
 \<and> (get_db (update_transaction tid u) st = (Inr row, st')
      \<and> query_account (SessionLocal st') (account_id row) = Some a
      \<and> query_category (SessionLocal st') (category_id row) = Some cat
      \<and> get_category_type (SessionLocal st') cat = ''expense''
      \<and> (account_type a = ''cash'' \<or> account_type a = ''debit'')
      \<longrightarrow> 0 \<le> balance a)
 \<and> (get_db (make_transfer tr now) st = (Inr resp, st')
      \<and> from_account_id tr \<noteq> to_account_id tr
      \<and> query_account (SessionLocal st') (from_account_id tr) = Some a
      \<and> (account_type a = ''cash'' \<or> account_type a = ''debit'')
      \<longrightarrow> 0 \<le> balance a)"
  using create_transaction_guard [of t now st row st' a cat]
        update_transaction_guard [of tid u st row st' a cat]
        make_transfer_guard [of tr now st resp st' a]
  by (auto simp: within_limit_def)

text \<open>
  A lunch of 200 from Cash, its amount corrected to 300, and a transfer of all 500 out of
  the debit account Card.
\<close>

theorem nonnegative_guarded_witness:
  "get_db (create_transaction
             \<lparr>tc_amount = 200, tc_description = Some ''Lunch'', tc_account_id = 1,
              tc_category_id = Some 1, tc_created_at = None\<rparr> 7) ledger = (Inr lunch, ledger_lunch)
   \<and> query_account (SessionLocal ledger_lunch) 1 = Some (cash\<lparr>balance := 800\<rparr>)
   \<and> 0 \<le> balance (cash\<lparr>balance := 800\<rparr>)
   \<and> get_db (update_transaction 1
                \<lparr>tu_amount = Some 300, tu_description = None, tu_account_id = None,
                 tu_category_id = None, tu_created_at = None\<rparr>) ledger_lunch
       = (Inr (lunch\<lparr>amount := 300\<rparr>),
          ledger_lunch\<lparr>accounts := [cash\<lparr>balance := 700\<rparr>, debit_card, visa],
                       transactions := [lunch\<lparr>amount := 300\<rparr>]\<rparr>)
   \<and> 0 \<le> balance (cash\<lparr>balance := 700\<rparr>)
   \<and> get_db (make_transfer \<lparr>from_account_id = 2, to_account_id = 1, tr_amount = 500\<rparr> 7) ledger
       = (Inr \<lparr>status = ''success'', from_balance = 0, to_balance = 1500\<rparr>,
          snd (get_db (make_transfer \<lparr>from_account_id = 2, to_account_id = 1, tr_amount = 500\<rparr> 7) ledger))
   \<and> query_account
        (SessionLocal (snd (get_db (make_transfer \<lparr>from_account_id = 2, to_account_id = 1, tr_amount = 500\<rparr> 7) ledger))) 2
       = Some (debit_card\<lparr>balance := 0\<rparr>)
   \<and> 0 \<le> balance (debit_card\<lparr>balance := 0\<rparr>)"
proof -
  let ?up = "\<lparr>tu_amount = Some 300, tu_description = None, tu_account_id = None,
               tu_category_id = None, tu_created_at = None\<rparr>"
  let ?st2 = "ledger_lunch\<lparr>accounts := [cash\<lparr>balance := 700\<rparr>, debit_card, visa],
                       transactions := [lunch\<lparr>amount := 300\<rparr>]\<rparr>"
  let ?tr = "\<lparr>from_account_id = 2, to_account_id = 1, tr_amount = 500\<rparr>"
  let ?st3 = "snd (get_db (make_transfer ?tr 7) ledger)"
  let ?resp = "\<lparr>status = ''success'', from_balance = 0, to_balance = 1500\<rparr>"
  note a1 = ledger_lunch_reached
  have a2: "query_account (SessionLocal ledger_lunch) (account_id lunch) = Some (cash\<lparr>balance := 800\<rparr>)"
    by (simp add: query_account_def ledger_defs)
  have a3: "query_category (SessionLocal ledger_lunch) (category_id lunch) = Some food"
    by (simp add: query_category_def ledger_defs)
  have a4: "get_category_type (SessionLocal ledger_lunch) food = ''expense''"
    by (simp add: get_category_type_def truthy_def food_def)
  have a5: "account_type (cash\<lparr>balance := 800\<rparr>) = ''cash'' \<or> account_type (cash\<lparr>balance := 800\<rparr>) = ''debit''"
    by (simp add: cash_def)
  from a1 a2 a3 a4 a5
    nonnegative_guarded [where t = "\<lparr>tc_amount = 200, tc_description = Some ''Lunch'', tc_account_id = 1,
              tc_category_id = Some 1, tc_created_at = None\<rparr>" and now = 7 and st = ledger and row = lunch
       and st' = ledger_lunch and a = "cash\<lparr>balance := 800\<rparr>" and cat = food]
  have A: "0 \<le> balance (cash\<lparr>balance := 800\<rparr>)"
    by blast
  have b1: "get_db (update_transaction 1 ?up) ledger_lunch = (Inr (lunch\<lparr>amount := 300\<rparr>), ?st2)"
    by (simp add: endpoint_defs ledger_defs)
  have b2: "query_account (SessionLocal ?st2) (account_id (lunch\<lparr>amount := 300\<rparr>))
              = Some (cash\<lparr>balance := 700\<rparr>)"
    by (simp add: query_account_def ledger_defs)
  have b3: "query_category (SessionLocal ?st2) (category_id (lunch\<lparr>amount := 300\<rparr>)) = Some food"
    by (simp add: query_category_def ledger_defs)
  have b4: "get_category_type (SessionLocal ?st2) food = ''expense''"
    by (simp add: get_category_type_def truthy_def food_def)
  have b5: "account_type (cash\<lparr>balance := 700\<rparr>) = ''cash'' \<or> account_type (cash\<lparr>balance := 700\<rparr>) = ''debit''"
    by (simp add: cash_def)
  from b1 b2 b3 b4 b5
    nonnegative_guarded [where tid = 1 and u = ?up and st = ledger_lunch and row = "lunch\<lparr>amount := 300\<rparr>"
       and st' = ?st2 and a = "cash\<lparr>balance := 700\<rparr>" and cat = food]
  have B: "0 \<le> balance (cash\<lparr>balance := 700\<rparr>)"
    by blast
  have c0': "fst (get_db (make_transfer ?tr 7) ledger) = Inr ?resp"
    by (simp add: endpoint_defs ledger_defs)
  have c0: "get_db (make_transfer ?tr 7) ledger = (Inr ?resp, ?st3)"
    using c0' by (simp add: prod_eq_iff)
  have c1: "from_account_id ?tr \<noteq> to_account_id ?tr" by simp
  have c2: "query_account (SessionLocal ?st3) (from_account_id ?tr) = Some (debit_card\<lparr>balance := 0\<rparr>)"
    by (simp add: endpoint_defs ledger_defs)
  have c5: "account_type (debit_card\<lparr>balance := 0\<rparr>) = ''cash'' \<or> account_type (debit_card\<lparr>balance := 0\<rparr>) = ''debit''"
    by (simp add: debit_card_def)
  from c0 c1 c2 c5
    nonnegative_guarded [where tr = ?tr and now = 7 and st = ledger and resp = ?resp
       and st' = ?st3 and a = "debit_card\<lparr>balance := 0\<rparr>"]
  have C: "0 \<le> balance (debit_card\<lparr>balance := 0\<rparr>)"
    by blast
  have a2': "query_account (SessionLocal ledger_lunch) 1 = Some (cash\<lparr>balance := 800\<rparr>)"
    using a2 by (simp add: lunch_def)
  have c2': "query_account (SessionLocal ?st3) 2 = Some (debit_card\<lparr>balance := 0\<rparr>)"
    using c2 by simp
  from a1 a2' A b1 B c0 c2' C show ?thesis
    by (intro conjI)
qed

text \<open>
  update_account stores the balance it is sent: a cash account created with 1000 is set to
  a balance of -50.
\<close>

theorem nonnegative_counterexample:
  "get_db (create_account
             \<lparr>ac_name = ''Cash'', ac_balance = 1000, ac_account_type = ''cash'', ac_credit_limit = 0\<rparr>)
          empty_store
     = (Inr cash, \<lparr>accounts = [cash], categories = [], transactions = []\<rparr>)
   \<and> get_db (update_account 1
             \<lparr>ac_name = ''Cash'', ac_balance = - 50, ac_account_type = ''cash'', ac_credit_limit = 0\<rparr>)
          \<lparr>accounts = [cash], categories = [], transactions = []\<rparr>
     = (Inr (cash\<lparr>balance := - 50\<rparr>),
        \<lparr>accounts = [cash\<lparr>balance := - 50\<rparr>], categories = [], transactions = []\<rparr>)
   \<and> account_type (cash\<lparr>balance := - 50\<rparr>) = ''cash''
   \<and> \<not> 0 \<le> balance (cash\<lparr>balance := - 50\<rparr>)"
  by (simp add: endpoint_defs ledger_defs)

subsection \<open>Deleting a transfer\<close>

text \<open>
  Right after a transfer between two distinct accounts, deleting the outgoing leg removes
  both rows and restores both balances; deleting the incoming leg does so as long as its
  description, which embeds the name of the source account, does not contain the outgoing
  marker.
\<close>

lemma delete_transfer_restores:
  assumes fa: "query_account (SessionLocal st) (from_account_id tr) = Some fa"
      and ta: "query_account (SessionLocal st) (to_account_id tr) = Some ta"
      and ne: "from_account_id tr \<noteq> to_account_id tr"
      and ok: "limit_check fa (balance fa - tr_amount tr) ''Insufficient funds in sender account'' = None"
      and k: "k = next_id (map txn_id (transactions st))
              \<or> k = Suc (next_id (map txn_id (transactions st)))
                \<and> \<not> sublist arrow_out (''Transfer '' @ arrow_in @ '' '' @ name fa)"
  shows "\<exists>st2. get_db (delete_transaction k) (snd (get_db (make_transfer tr now) st))
                = (Inr \<lparr>del_status = ''deleted'', del_id = k\<rparr>, st2)
             \<and> balance_of st2 (from_account_id tr) = Some (balance fa)
             \<and> balance_of st2 (to_account_id tr) = Some (balance ta)
             \<and> transactions st2 = transactions st"
proof -
  define n where "n = next_id (map txn_id (transactions st))"
  define st1 where "st1 = snd (get_db (make_transfer tr now) st)"
  define out where "out = hd (transfer_legs st fa ta (tr_amount tr) now)"
  define inc where "inc = hd (tl (transfer_legs st fa ta (tr_amount tr) now))"
  have ids: "acc_id fa = from_account_id tr" "acc_id ta = to_account_id tr"
    using fa ta by (auto dest: query_account_id)
  have rows: "transactions st1 = transactions st @ [out, inc]"
    unfolding st1_def make_transfer_success [OF fa ta ne ok] out_def inc_def
    by (simp add: transfer_legs_def Let_def)
  have o: "txn_id out = n" "transfer_pair_id out = Some (Suc n)" "is_transfer out"
          "account_id out = from_account_id tr" "amount out = tr_amount tr"
          "description out = Some (''Transfer '' @ arrow_out @ '' '' @ name ta)"
    by (simp_all add: out_def transfer_legs_def Let_def n_def ids)
  have i: "txn_id inc = Suc n" "transfer_pair_id inc = Some n" "is_transfer inc"
          "account_id inc = to_account_id tr" "amount inc = tr_amount tr"
          "description inc = Some (''Transfer '' @ arrow_in @ '' '' @ name fa)"
    by (simp_all add: inc_def transfer_legs_def Let_def n_def ids)
  have qo: "query_transaction (SessionLocal st1) (Some n) = Some out"
    and qi: "query_transaction (SessionLocal st1) (Some (Suc n)) = Some inc"
    using o i by (simp_all add: query_transaction_def rows n_def find_fresh_legs)
  have qf: "query_account (SessionLocal st1) (from_account_id tr)
              = Some (fa\<lparr>balance := balance fa - tr_amount tr\<rparr>)"
    and qt: "query_account (SessionLocal st1) (to_account_id tr)
              = Some (ta\<lparr>balance := balance ta + tr_amount tr\<rparr>)"
    unfolding st1_def by (rule make_transfer_balances [OF fa ta ne ok])+
  have so: "sublist arrow_out (''Transfer '' @ arrow_out @ '' '' @ name ta)"
    by (rule sublist_appendI)
  have fl: "filter (\<lambda>t. txn_id t \<noteq> Suc n) (filter (\<lambda>t. txn_id t \<noteq> n) (transactions st1)) = transactions st"
           "filter (\<lambda>t. txn_id t \<noteq> n) (filter (\<lambda>t. txn_id t \<noteq> Suc n) (transactions st1)) = transactions st"
    using o i txn_ids_not_next [of "transactions st"] txn_ids_not_Suc_next [of "transactions st"]
    by (simp_all add: rows n_def filter_other_key)
  from k consider (out) "k = n" | (inc) "k = Suc n"
      "\<not> sublist arrow_out (''Transfer '' @ arrow_in @ '' '' @ name fa)"
    by (auto simp: n_def)
  then have "\<exists>st2. get_db (delete_transaction k) st1
                = (Inr \<lparr>del_status = ''deleted'', del_id = k\<rparr>, st2)
             \<and> balance_of st2 (from_account_id tr) = Some (balance fa)
             \<and> balance_of st2 (to_account_id tr) = Some (balance ta)
             \<and> transactions st2 = transactions st"
  proof cases
    case out
    show ?thesis
      using qo qi qf qt o i so ne ids fl
      by (simp add: out get_db_def delete_transaction_def Let_def balance_of_def
            query_account_update)
  next
    case inc
    show ?thesis
      using qo qi qf qt o i inc(2) ne ids fl
      by (simp add: inc(1) get_db_def delete_transaction_def Let_def balance_of_def
            query_account_update)
  qed
  then show ?thesis by (simp add: st1_def)
qed

text \<open>
  C5 (the code departs from the claim). The source account of the transfer in
  \<open>ledger_named_moved\<close> is called "Cash \<open>\<rightarrow>\<close> Card", so the description of the incoming
  leg, "Transfer \<open>\<leftarrow>\<close> Cash \<open>\<rightarrow>\<close> Card", contains the outgoing marker. Deleting the outgoing
  leg removes both rows and restores 1000 and 500. Deleting the incoming leg removes both
  rows as well, but takes it for the outgoing one: its own account, the destination, gets
  the 300 a second time (1100) and the source loses them a second time (400).
\<close>

theorem delete_transfer_misdirected:
  "get_db (make_transfer \<lparr>from_account_id = 1, to_account_id = 2, tr_amount = 300\<rparr> 7) ledger_named
     = (Inr \<lparr>status = ''success'', from_balance = 700, to_balance = 800\<rparr>, ledger_named_moved)
   \<and> balance_of ledger_named 1 = Some 1000 \<and> balance_of ledger_named 2 = Some 500
   \<and> get_db (delete_transaction 1) ledger_named_moved
     = (Inr \<lparr>del_status = ''deleted'', del_id = 1\<rparr>, ledger_named)
   \<and> get_db (delete_transaction 2) ledger_named_moved
     = (Inr \<lparr>del_status = ''deleted'', del_id = 2\<rparr>,
        ledger_named\<lparr>accounts := [joint\<lparr>balance := 400\<rparr>, debit_card\<lparr>balance := 1100\<rparr>]\<rparr>)"
  by (simp add: endpoint_defs ledger_defs sublist_code)

end
